theory Spec2Isabelle
  imports Main "HOL-Library.Word"
begin

section \<open>The enum codec of pgtype: data model\<close>

text \<open>
  Source: \<^verbatim>\<open>src/pgtype/enum_codec.go\<close>. A Go \<^verbatim>\<open>string\<close> and the content of a
  \<^verbatim>\<open>[]byte\<close> are both byte sequences, modelled as \<^typ>\<open>string\<close>; the conversion
  \<^verbatim>\<open>string(src)\<close> keeps the content. A \<^verbatim>\<open>[]byte\<close> that may be \<^verbatim>\<open>nil\<close> is a
  \<^typ>\<open>string option\<close>: \<open>None\<close> is the nil slice (SQL NULL) and \<open>Some []\<close> the present,
  zero-length buffer.
\<close>

type_synonym bytes = "string option"

text \<open>
  \<^verbatim>\<open>type EnumCodec struct { membersMap map[string]string }\<close>. The map field is \<open>None\<close>
  while it is the nil map (the zero value of the struct) and \<open>Some m\<close> once
  \<^verbatim>\<open>make\<close> has run.
\<close>

record EnumCodec =
  membersMap :: "(string \<rightharpoonup> string) option"

definition EnumCodec_zero :: EnumCodec where
  "EnumCodec_zero = \<lparr>membersMap = None\<rparr>"

text \<open>
  The format codes are declared in a file that is not among the sources.
  Modelled from the spec: \<^verbatim>\<open>FormatCode: 0 = Text, 1 = Binary\<close>; the Go type is
  \<^verbatim>\<open>int16\<close>.
\<close>

definition TextFormatCode :: "16 word" where
  "TextFormatCode = 0"

definition BinaryFormatCode :: "16 word" where
  "BinaryFormatCode = 1"

text \<open>
  \<^verbatim>\<open>Text{String: ..., Valid: ...}\<close> as \<^verbatim>\<open>enum_codec.go\<close> and \<^verbatim>\<open>text_test.go\<close> build it;
  \<^verbatim>\<open>Text{}\<close> is the zero value.
\<close>

record Text =
  String :: string
  Valid :: bool

definition Text_zero :: Text where
  "Text_zero = \<lparr>String = [], Valid = False\<rparr>"

datatype error = Error string

text \<open>
  A call either returns or panics (a failed type assertion \<^verbatim>\<open>dst.(*string)\<close>).
\<close>

datatype 'a outcome = Returns 'a | Panics

text \<open>
  The dynamic type of the \<^verbatim>\<open>value interface{}\<close> handed to \<^verbatim>\<open>PlanEncode\<close>: the four
  shapes of its type switch, in the order of the switch, then the nil interface and any
  other type (with its \<^verbatim>\<open>%T\<close> name). A \<^verbatim>\<open>TextValuer\<close> is given by the result of its
  \<^verbatim>\<open>TextValue\<close> method.
\<close>

datatype go_value =
    StringValue string
  | ByteSliceValue bytes
  | RuneValue "32 word"
  | TextValuerValue "error + Text"
  | NilValue
  | OtherValue string

text \<open>
  The dynamic type of the \<^verbatim>\<open>target\<close>/\<^verbatim>\<open>dst interface{}\<close> of \<^verbatim>\<open>PlanScan\<close> and
  \<^verbatim>\<open>Scan\<close>. A pointer target carries the value it points to. A \<^verbatim>\<open>TextScanner\<close>
  carries its type name, its \<^verbatim>\<open>ScanText\<close> method (which may update the receiver's
  state \<open>'d\<close> and may return an error) and the receiver's state.
\<close>

datatype 'd target =
    PtrString string
  | PtrByteSlice bytes
  | TextScannerTarget string "Text \<Rightarrow> 'd \<Rightarrow> error option \<times> 'd" 'd
  | PtrRune "32 word"
  | NilTarget
  | OtherTarget string

text \<open>What \<^verbatim>\<open>%T\<close> prints for a target.\<close>

fun type_name :: "'d target \<Rightarrow> string" where
  "type_name (PtrString _) = ''*string''"
| "type_name (PtrByteSlice _) = ''*[]uint8''"
| "type_name (TextScannerTarget n _ _) = n"
| "type_name (PtrRune _) = ''*int32''"
| "type_name NilTarget = ''<nil>''"
| "type_name (OtherTarget n) = n"

datatype EncodePlan =
    encodePlanTextCodecString
  | encodePlanTextCodecByteSlice
  | encodePlanTextCodecRune
  | encodePlanTextCodecTextValuer

text \<open>
  The two enum plans hold a pointer to the codec; here the codec's state is passed to
  their \<^verbatim>\<open>Scan\<close> instead.
\<close>

datatype ScanPlan =
    scanPlanTextAnyToEnumString
  | scanPlanAnyToNewByteSlice
  | scanPlanTextAnyToEnumTextScanner
  | scanPlanTextAnyToRune

section \<open>The operations\<close>

definition FormatSupported :: "16 word \<Rightarrow> bool" where
  "FormatSupported format = (format = TextFormatCode \<or> format = BinaryFormatCode)"

definition PreferredFormat :: "16 word" where
  "PreferredFormat = TextFormatCode"

definition PlanEncode :: "'ci \<Rightarrow> 32 word \<Rightarrow> 16 word \<Rightarrow> go_value \<Rightarrow> EncodePlan option" where
  "PlanEncode ci oid format v =
     (if format = TextFormatCode \<or> format = BinaryFormatCode then
        (case v of
           StringValue _ \<Rightarrow> Some encodePlanTextCodecString
         | ByteSliceValue _ \<Rightarrow> Some encodePlanTextCodecByteSlice
         | RuneValue _ \<Rightarrow> Some encodePlanTextCodecRune
         | TextValuerValue _ \<Rightarrow> Some encodePlanTextCodecTextValuer
         | NilValue \<Rightarrow> None
         | OtherValue _ \<Rightarrow> None)
      else None)"

definition PlanScan ::
  "EnumCodec \<Rightarrow> 'ci \<Rightarrow> 32 word \<Rightarrow> 16 word \<Rightarrow> 'd target \<Rightarrow> bool \<Rightarrow> ScanPlan option" where
  "PlanScan c ci oid format tgt actualTarget =
     (if format = TextFormatCode \<or> format = BinaryFormatCode then
        (case tgt of
           PtrString _ \<Rightarrow> Some scanPlanTextAnyToEnumString
         | PtrByteSlice _ \<Rightarrow> Some scanPlanAnyToNewByteSlice
         | TextScannerTarget _ _ _ \<Rightarrow> Some scanPlanTextAnyToEnumTextScanner
         | PtrRune _ \<Rightarrow> Some scanPlanTextAnyToRune
         | NilTarget \<Rightarrow> None
         | OtherTarget _ \<Rightarrow> None)
      else None)"

text \<open>
  \<^verbatim>\<open>lookupAndCacheString\<close>: the nil map is replaced by an empty one; then the map is
  read at \<^verbatim>\<open>string(src)\<close>. On a hit the stored string is returned. On a miss the
  variable \<^verbatim>\<open>s\<close> of the \<^verbatim>\<open>if\<close> statement holds the zero value of \<^verbatim>\<open>string\<close>, the
  empty string, and the \<^verbatim>\<open>else\<close> branch stores and returns that \<^verbatim>\<open>s\<close>.
\<close>

definition lookupAndCacheString :: "EnumCodec \<Rightarrow> string \<Rightarrow> string \<times> EnumCodec" where
  "lookupAndCacheString c src =
     (let m = (case membersMap c of None \<Rightarrow> Map.empty | Some m0 \<Rightarrow> m0) in
      case m src of
        Some s \<Rightarrow> (s, c\<lparr>membersMap := Some m\<rparr>)
      | None \<Rightarrow> (let s = [] in (s, c\<lparr>membersMap := Some (m(s \<mapsto> s))\<rparr>)))"

text \<open>
  \<^verbatim>\<open>DecodeValue\<close> returns \<^verbatim>\<open>(interface{}, error)\<close>: the value is nil or a string, the
  error is always nil. The third component is the codec after the call.
\<close>

definition DecodeValue ::
  "EnumCodec \<Rightarrow> 'ci \<Rightarrow> 32 word \<Rightarrow> 16 word \<Rightarrow> bytes \<Rightarrow> string option \<times> error option \<times> EnumCodec" where
  "DecodeValue c ci oid format src =
     (case src of
        None \<Rightarrow> (None, None, c)
      | Some b \<Rightarrow> (case lookupAndCacheString c b of (s, c') \<Rightarrow> (Some s, None, c')))"

definition DecodeDatabaseSQLValue ::
  "EnumCodec \<Rightarrow> 'ci \<Rightarrow> 32 word \<Rightarrow> 16 word \<Rightarrow> bytes \<Rightarrow> string option \<times> error option \<times> EnumCodec" where
  "DecodeDatabaseSQLValue c ci oid format src = DecodeValue c ci oid format src"

text \<open>
  \<^verbatim>\<open>scanPlanTextAnyToEnumString.Scan\<close>: result, codec and destination after the call.
  With a non-nil source and a destination that is not a \<^verbatim>\<open>*string\<close> the type assertion
  panics.
\<close>

definition scanPlanTextAnyToEnumString_Scan ::
  "EnumCodec \<Rightarrow> 'ci \<Rightarrow> 32 word \<Rightarrow> 16 word \<Rightarrow> bytes \<Rightarrow> 'd target
     \<Rightarrow> (error option \<times> EnumCodec \<times> 'd target) outcome" where
  "scanPlanTextAnyToEnumString_Scan c ci oid formatCode src dst =
     (case src of
        None \<Rightarrow> Returns (Some (Error (''cannot scan null into '' @ type_name dst)), c, dst)
      | Some b \<Rightarrow>
          (case dst of
             PtrString _ \<Rightarrow>
               (case lookupAndCacheString c b of (s, c') \<Rightarrow> Returns (None, c', PtrString s))
           | _ \<Rightarrow> Panics))"

text \<open>
  \<^verbatim>\<open>scanPlanTextAnyToEnumTextScanner.Scan\<close>: the type assertion comes first; the
  result of the call is the result of the destination's \<^verbatim>\<open>ScanText\<close>.
\<close>

definition scanPlanTextAnyToEnumTextScanner_Scan ::
  "EnumCodec \<Rightarrow> 'ci \<Rightarrow> 32 word \<Rightarrow> 16 word \<Rightarrow> bytes \<Rightarrow> 'd target
     \<Rightarrow> (error option \<times> EnumCodec \<times> 'd target) outcome" where
  "scanPlanTextAnyToEnumTextScanner_Scan c ci oid formatCode src dst =
     (case dst of
        TextScannerTarget n ScanText d \<Rightarrow>
          (case src of
             None \<Rightarrow>
               (case ScanText Text_zero d of
                  (err, d') \<Rightarrow> Returns (err, c, TextScannerTarget n ScanText d'))
           | Some b \<Rightarrow>
               (case lookupAndCacheString c b of
                  (s, c') \<Rightarrow>
                    (case ScanText \<lparr>String = s, Valid = True\<rparr> d of
                       (err, d') \<Rightarrow> Returns (err, c', TextScannerTarget n ScanText d'))))
      | _ \<Rightarrow> Panics)"

section \<open>Parts that are not among the sources\<close>

text \<open>
  Modelled from the spec: the \<^verbatim>\<open>Encode\<close> method of \<^verbatim>\<open>encodePlanTextCodecString\<close> is
  in \<^verbatim>\<open>text.go\<close>, which is not at hand. The spec: "plain character-sequence (string):
  encode verbatim as UTF-8-equivalent bytes", and "\<^verbatim>\<open>encode(value) -> bytes|NULL\<close>
  distinguishes NULL (no buffer) from an explicit empty buffer". A string is never NULL.
\<close>

definition encodePlanTextCodecString_Encode :: "string \<Rightarrow> bytes" where
  "encodePlanTextCodecString_Encode s = Some s"

text \<open>
  Modelled from the spec: \<^verbatim>\<open>Text\<close> as a \<^verbatim>\<open>TextScanner\<close>; its \<^verbatim>\<open>ScanText\<close> is in
  \<^verbatim>\<open>text.go\<close>. The spec: the text-consuming capability "exposes a method accepting a
  NullableText (so it can observe and represent SQL NULL)"; \<^verbatim>\<open>text_test.go\<close> expects a
  \<^verbatim>\<open>new(pgtype.Text)\<close> scanned from NULL to equal \<^verbatim>\<open>pgtype.Text{}\<close>. The receiver
  takes the value it is given.
\<close>

definition Text_ScanText :: "Text \<Rightarrow> Text \<Rightarrow> error option \<times> Text" where
  "Text_ScanText v dst = (None, v)"










section \<open>A destination that refuses NULL\<close>

text \<open>
  An implementation of the \<^verbatim>\<open>TextScanner\<close> interface that a caller can pass: a type
  with no representation of SQL NULL, whose \<^verbatim>\<open>ScanText\<close> takes the string of a valid
  \<^verbatim>\<open>Text\<close> and returns an error for an invalid one, leaving the receiver as it was.
\<close>

definition NotNullText_ScanText :: "Text \<Rightarrow> string \<Rightarrow> error option \<times> string" where
  "NotNullText_ScanText v dst =
     (if Valid v then (None, String v) else (Some (Error ''NULL not allowed''), dst))"

section \<open>The cache invariant\<close>

text \<open>
  Every entry of the cache maps a key to a string of the same content. The field is
  unexported and \<^verbatim>\<open>lookupAndCacheString\<close> is its only writer, so every codec a
  caller can hold is the zero value or the result of calls of the operations above.
\<close>

definition members_consistent :: "EnumCodec \<Rightarrow> bool" where
  "members_consistent c =
     (case membersMap c of None \<Rightarrow> True | Some m \<Rightarrow> (\<forall>k s. m k = Some s \<longrightarrow> s = k))"

text \<open>The cache holds no entry but the empty string under the empty key.\<close>

definition members_only_empty :: "EnumCodec \<Rightarrow> bool" where
  "members_only_empty c =
     (case membersMap c of
        None \<Rightarrow> True
      | Some m \<Rightarrow> (\<forall>k s. m k = Some s \<longrightarrow> k = [] \<and> s = []))"

lemma members_consistent_zero: "members_consistent EnumCodec_zero"
  by (simp add: members_consistent_def EnumCodec_zero_def)

lemma members_consistent_lookup:
  "members_consistent c \<Longrightarrow> members_consistent (snd (lookupAndCacheString c b))"
  by (auto simp: members_consistent_def lookupAndCacheString_def Let_def
           split: option.splits)

lemma members_consistent_DecodeValue:
  assumes "members_consistent c"
  shows "members_consistent (snd (snd (DecodeValue c ci oid format src)))"
proof (cases src)
  case None
  with assms show ?thesis by (simp add: DecodeValue_def)
next
  case (Some b)
  from assms have "members_consistent (snd (lookupAndCacheString c b))"
    by (rule members_consistent_lookup)
  with Some show ?thesis
    by (cases "lookupAndCacheString c b") (simp add: DecodeValue_def)
qed

lemma members_consistent_Scan_String:
  "members_consistent c \<Longrightarrow>
   scanPlanTextAnyToEnumString_Scan c ci oid format src dst = Returns (e, c', dst') \<Longrightarrow>
   members_consistent c'"
  using members_consistent_lookup [of c "the src"]
  by (auto simp: scanPlanTextAnyToEnumString_Scan_def
           split: option.splits prod.splits target.splits)

lemma members_consistent_Scan_TextScanner:
  "members_consistent c \<Longrightarrow>
   scanPlanTextAnyToEnumTextScanner_Scan c ci oid format src dst = Returns (e, c', dst') \<Longrightarrow>
   members_consistent c'"
  using members_consistent_lookup [of c "the src"]
  by (auto simp: scanPlanTextAnyToEnumTextScanner_Scan_def
           split: option.splits prod.splits target.splits)

lemma lookup_empty_consistent:
  "members_consistent c \<Longrightarrow> fst (lookupAndCacheString c []) = []"
  by (auto simp: members_consistent_def lookupAndCacheString_def Let_def
           split: option.splits)

lemma members_only_empty_zero: "members_only_empty EnumCodec_zero"
  by (simp add: members_only_empty_def EnumCodec_zero_def)

lemma members_only_empty_lookup:
  "members_only_empty c \<Longrightarrow> members_only_empty (snd (lookupAndCacheString c b))"
  unfolding members_only_empty_def lookupAndCacheString_def Let_def
  by (auto split: option.splits if_splits) (metis not_None_eq)

text \<open>
  From the zero value on, the cache never holds anything but the empty string, and
  \<^verbatim>\<open>lookupAndCacheString\<close> returns the empty string for every source.
\<close>

lemma lookup_only_empty:
  "members_only_empty c \<Longrightarrow> fst (lookupAndCacheString c b) = []"
  by (auto simp: members_only_empty_def lookupAndCacheString_def Let_def
           split: option.splits)

lemma lookup_zero:
  "lookupAndCacheString EnumCodec_zero b = ([], \<lparr>membersMap = Some [[] \<mapsto> []]\<rparr>)"
  by (simp add: lookupAndCacheString_def EnumCodec_zero_def)

section \<open>Decoding a present source\<close>

text \<open>
  C1. The property: for a non-nil source, \<^verbatim>\<open>DecodeValue\<close> returns, with no error, the
  interned string whose content is the content of the source, and inserts it into the
  cache if it is absent. Evaluated on the zero-value codec and the source \<^verbatim>\<open>foo\<close>: the
  call returns the empty string with no error, and the cache afterwards holds the empty
  string under the empty key and nothing under \<^verbatim>\<open>foo\<close>.
\<close>

theorem C1_DecodeValue_foo:
  "DecodeValue EnumCodec_zero () 0 TextFormatCode (Some ''foo'')
     = (Some [], None, \<lparr>membersMap = Some [[] \<mapsto> []]\<rparr>)"
  by (simp add: DecodeValue_def lookupAndCacheString_def EnumCodec_zero_def)

text \<open>
  C2. The property: on one codec, the same content decoded twice gives the same interned
  instance, and two different contents give distinct instances. Evaluated on the
  zero-value codec, decoding \<^verbatim>\<open>a\<close> and then \<^verbatim>\<open>b\<close>: both calls return the same value, the
  empty string, and the cache after each call holds the single entry of the empty string:
  neither content has an instance of its own.
\<close>

theorem C2_two_contents_one_result:
  "(case DecodeValue EnumCodec_zero () 0 TextFormatCode (Some ''a'') of
      (v1, e1, c1) \<Rightarrow>
        (case DecodeValue c1 () 0 TextFormatCode (Some ''b'') of
           (v2, e2, c2) \<Rightarrow> (v1, v2, c1, c2)))
     = (Some [], Some [],
        \<lparr>membersMap = Some [[] \<mapsto> []]\<rparr>, \<lparr>membersMap = Some [[] \<mapsto> []]\<rparr>)"
  by (simp add: DecodeValue_def lookupAndCacheString_def EnumCodec_zero_def)

section \<open>Encoding a string and scanning it back\<close>

text \<open>
  C3. The property: a string encoded by the plan of \<^verbatim>\<open>PlanEncode\<close> and scanned into a
  \<^verbatim>\<open>*string\<close> by the plan of \<^verbatim>\<open>PlanScan\<close> comes back unchanged. Evaluated on the
  zero-value codec, the text format and the string \<^verbatim>\<open>foo\<close>: both plans are found, the
  encoded bytes are \<^verbatim>\<open>foo\<close>, and the scan returns no error and leaves the empty string in
  the destination.
\<close>

theorem C3_round_trip_foo:
  "PlanEncode () 0 TextFormatCode (StringValue ''foo'') = Some encodePlanTextCodecString
   \<and> encodePlanTextCodecString_Encode ''foo'' = Some ''foo''
   \<and> PlanScan EnumCodec_zero () 0 TextFormatCode (PtrString ''old'' :: unit target) True
       = Some scanPlanTextAnyToEnumString
   \<and> scanPlanTextAnyToEnumString_Scan EnumCodec_zero () 0 TextFormatCode
         (encodePlanTextCodecString_Encode ''foo'') (PtrString ''old'' :: unit target)
       = Returns (None, \<lparr>membersMap = Some [[] \<mapsto> []]\<rparr>, PtrString [])"
  by (simp add: PlanEncode_def PlanScan_def encodePlanTextCodecString_Encode_def
        scanPlanTextAnyToEnumString_Scan_def lookupAndCacheString_def EnumCodec_zero_def)

text \<open>
  The same for every string, on every codec that the operations can produce: what the
  scan leaves in the destination is the empty string.
\<close>

lemma Scan_String_only_empty:
  "members_only_empty c \<Longrightarrow>
   \<exists>c'. scanPlanTextAnyToEnumString_Scan c ci oid formatCode
           (encodePlanTextCodecString_Encode s) (PtrString p :: 'd target)
         = Returns (None, c', PtrString [])"
  using lookup_only_empty [of c s]
  by (cases "lookupAndCacheString c s")
     (simp add: scanPlanTextAnyToEnumString_Scan_def encodePlanTextCodecString_Encode_def)

section \<open>Decoding NULL\<close>

text \<open>
  C5. For every format (and every codec state and type id), \<^verbatim>\<open>DecodeValue\<close> of a nil
  source returns the nil value and the nil error, and the codec, with its cache, is the
  one it was called on: no entry was read or inserted, and a nil map stays nil.
\<close>

theorem C5_DecodeValue_null:
  "DecodeValue c ci oid format None = (None, None, c)"
  by (simp add: DecodeValue_def)

text \<open>
  C10. \<^verbatim>\<open>DecodeDatabaseSQLValue\<close> returns the value, the error and the codec state that
  \<^verbatim>\<open>DecodeValue\<close> returns on the same input.
\<close>

theorem C10_DecodeDatabaseSQLValue_eq:
  "DecodeDatabaseSQLValue c ci oid format src = DecodeValue c ci oid format src"
  by (simp add: DecodeDatabaseSQLValue_def)

text \<open>
  C7. On every codec that satisfies the cache invariant, \<^verbatim>\<open>DecodeValue\<close> of the
  present, zero-length buffer returns a present empty string with no error, and of the nil
  buffer the nil value; the value decoded from a present empty buffer differs from the
  value decoded from a nil buffer, whatever the codecs, type ids and formats of the two
  calls.
\<close>

theorem C7_empty_buffer_is_not_null:
  assumes "members_consistent c"
  shows "fst (DecodeValue c ci oid format (Some [])) = Some []
       \<and> fst (snd (DecodeValue c ci oid format (Some []))) = None
       \<and> fst (DecodeValue c ci oid format None) = None
       \<and> fst (DecodeValue c ci oid format (Some [])) \<noteq> fst (DecodeValue c2 ci2 oid2 format2 None)"
  using lookup_empty_consistent [OF assms]
  by (cases "lookupAndCacheString c []") (simp add: DecodeValue_def)

theorem C7_empty_buffer_is_not_null_witness:
  "members_consistent EnumCodec_zero
   \<and> fst (DecodeValue EnumCodec_zero () 0 TextFormatCode (Some [])) = Some []
   \<and> fst (snd (DecodeValue EnumCodec_zero () 0 TextFormatCode (Some []))) = None
   \<and> fst (DecodeValue EnumCodec_zero () 0 TextFormatCode None) = None
   \<and> fst (DecodeValue EnumCodec_zero () 0 TextFormatCode (Some []))
       \<noteq> fst (DecodeValue EnumCodec_zero () 0 BinaryFormatCode None)"
proof -
  note h = members_consistent_zero
  from C7_empty_buffer_is_not_null
         [OF h, of "()" 0 TextFormatCode EnumCodec_zero "()" 0 BinaryFormatCode] h
  show ?thesis by blast
qed

section \<open>Scanning NULL\<close>

text \<open>
  C9. \<^verbatim>\<open>scanPlanTextAnyToEnumString.Scan\<close> with a nil source returns an error, and the
  destination (for a \<^verbatim>\<open>*string\<close>, the string it points to) and the codec are the ones
  it was called with.
\<close>

theorem C9_Scan_String_null_atomic:
  "scanPlanTextAnyToEnumString_Scan c ci oid formatCode None dst
     = Returns (Some (Error (''cannot scan null into '' @ type_name dst)), c, dst)
   \<and> scanPlanTextAnyToEnumString_Scan c ci oid formatCode None (PtrString p)
     = Returns (Some (Error ''cannot scan null into *string''), c, PtrString p)"
  by (simp add: scanPlanTextAnyToEnumString_Scan_def)

text \<open>
  C4, as the code has it. Scanning a nil source into a \<^verbatim>\<open>*string\<close> with the plan that
  \<^verbatim>\<open>PlanScan\<close> gives for it returns the error \<^verbatim>\<open>cannot scan null into *string\<close>, which
  names the destination's type. Scanning a nil source into a \<^verbatim>\<open>TextScanner\<close> with its
  plan calls the destination's \<^verbatim>\<open>ScanText\<close> once, with \<^verbatim>\<open>Text{}\<close> (empty string, not
  valid), and returns what \<^verbatim>\<open>ScanText\<close> returns: the plan adds no error of its own and
  leaves the codec as it was, so the scan succeeds exactly when \<^verbatim>\<open>ScanText\<close> does.
\<close>

theorem C4_null_scan:
  "PlanScan c ci oid TextFormatCode (PtrString p :: 'd target) a
       = Some scanPlanTextAnyToEnumString
   \<and> PlanScan c ci oid BinaryFormatCode (PtrString p :: 'd target) a
       = Some scanPlanTextAnyToEnumString
   \<and> scanPlanTextAnyToEnumString_Scan c ci oid formatCode None (PtrString p :: 'd target)
       = Returns (Some (Error ''cannot scan null into *string''), c, PtrString p)
   \<and> PlanScan c ci oid TextFormatCode (TextScannerTarget n ScanText d) a
       = Some scanPlanTextAnyToEnumTextScanner
   \<and> PlanScan c ci oid BinaryFormatCode (TextScannerTarget n ScanText d) a
       = Some scanPlanTextAnyToEnumTextScanner
   \<and> scanPlanTextAnyToEnumTextScanner_Scan c ci oid formatCode None
         (TextScannerTarget n ScanText d)
       = Returns (fst (ScanText \<lparr>String = [], Valid = False\<rparr> d), c,
                  TextScannerTarget n ScanText (snd (ScanText \<lparr>String = [], Valid = False\<rparr> d)))"
  by (simp add: PlanScan_def scanPlanTextAnyToEnumString_Scan_def
        scanPlanTextAnyToEnumTextScanner_Scan_def Text_zero_def split: prod.splits)

text \<open>
  C4 as stated says that the scan of a nil source into a \<^verbatim>\<open>TextScanner\<close> succeeds. With
  a destination whose \<^verbatim>\<open>ScanText\<close> refuses NULL the scan returns that error.
\<close>

theorem C4_null_scan_counterexample:
  "scanPlanTextAnyToEnumTextScanner_Scan EnumCodec_zero () 0 TextFormatCode None
       (TextScannerTarget ''*NotNullText'' NotNullText_ScanText ''x'')
     = Returns (Some (Error ''NULL not allowed''), EnumCodec_zero,
                TextScannerTarget ''*NotNullText'' NotNullText_ScanText ''x'')"
  by (simp add: scanPlanTextAnyToEnumTextScanner_Scan_def NotNullText_ScanText_def
        Text_zero_def)

text \<open>
  With a \<^verbatim>\<open>*Text\<close> as destination, as in \<^verbatim>\<open>text_test.go\<close>, the scan of a nil source
  succeeds and leaves \<^verbatim>\<open>Text{}\<close>.
\<close>

lemma Scan_TextScanner_null_into_Text:
  "scanPlanTextAnyToEnumTextScanner_Scan c ci oid formatCode None
       (TextScannerTarget ''*pgtype.Text'' Text_ScanText t)
     = Returns (None, c, TextScannerTarget ''*pgtype.Text'' Text_ScanText Text_zero)"
  by (simp add: scanPlanTextAnyToEnumTextScanner_Scan_def Text_ScanText_def)

section \<open>Plan resolution\<close>

text \<open>
  C6. \<^verbatim>\<open>PlanEncode\<close> and \<^verbatim>\<open>PlanScan\<close> return no plan when the format is neither
  \<^verbatim>\<open>TextFormatCode\<close> nor \<^verbatim>\<open>BinaryFormatCode\<close>, whatever the value or destination, and
  when the value or destination is the nil interface or of a type outside the four of
  the type switch, whatever the format. Both are total and their result type has no
  error: no plan is the value \<open>None\<close>.
\<close>

theorem C6_no_plan:
  "(format \<noteq> TextFormatCode \<and> format \<noteq> BinaryFormatCode \<longrightarrow>
      PlanEncode ci oid format v = None \<and> PlanScan c ci oid format tgt actualTarget = None)
   \<and> PlanEncode ci oid format2 NilValue = None
   \<and> PlanEncode ci oid format2 (OtherValue n) = None
   \<and> PlanScan c ci oid format2 (NilTarget :: 'd target) actualTarget = None
   \<and> PlanScan c ci oid format2 (OtherTarget n :: 'd target) actualTarget = None"
  by (simp add: PlanEncode_def PlanScan_def)

theorem C6_no_plan_witness:
  "(2::16 word) \<noteq> TextFormatCode \<and> (2::16 word) \<noteq> BinaryFormatCode
   \<and> PlanEncode () 0 2 (StringValue ''a'') = None
   \<and> PlanScan EnumCodec_zero () 0 2 (PtrString ''x'' :: unit target) True = None
   \<and> PlanEncode () 0 TextFormatCode NilValue = None
   \<and> PlanEncode () 0 TextFormatCode (OtherValue ''int'') = None
   \<and> PlanScan EnumCodec_zero () 0 TextFormatCode (NilTarget :: unit target) True = None
   \<and> PlanScan EnumCodec_zero () 0 TextFormatCode (OtherTarget ''int'' :: unit target) True = None"
  using C6_no_plan [where format = 2 and ci = "()" and oid = 0 and v = "StringValue ''a''"
      and c = EnumCodec_zero and tgt = "PtrString ''x'' :: unit target" and actualTarget = True
      and ?format2.0 = TextFormatCode and n = "''int''"]
  by (simp add: TextFormatCode_def BinaryFormatCode_def)

text \<open>With a supported format, each of the four shapes has its plan.\<close>

lemma PlanEncode_supported:
  "FormatSupported format \<Longrightarrow>
   PlanEncode ci oid format (StringValue s) = Some encodePlanTextCodecString
   \<and> PlanEncode ci oid format (ByteSliceValue b) = Some encodePlanTextCodecByteSlice
   \<and> PlanEncode ci oid format (RuneValue r) = Some encodePlanTextCodecRune
   \<and> PlanEncode ci oid format (TextValuerValue tv) = Some encodePlanTextCodecTextValuer"
  by (auto simp: FormatSupported_def PlanEncode_def)

lemma PlanScan_supported:
  "FormatSupported format \<Longrightarrow>
   PlanScan c ci oid format (PtrString s) a = Some scanPlanTextAnyToEnumString
   \<and> PlanScan c ci oid format (PtrByteSlice b) a = Some scanPlanAnyToNewByteSlice
   \<and> PlanScan c ci oid format (TextScannerTarget n f d) a = Some scanPlanTextAnyToEnumTextScanner
   \<and> PlanScan c ci oid format (PtrRune r) a = Some scanPlanTextAnyToRune"
  by (auto simp: FormatSupported_def PlanScan_def)

section \<open>JSON\<close>








end
